theory Spec2Isabelle
  imports Main
begin

section \<open>The document registry of ts-morph\<close>

text \<open>
  A shallow embedding of \<^verbatim>\<open>packages/common/src/compiler/DocumentRegistry.ts\<close>: the
  class \<^verbatim>\<open>DocumentRegistry\<close>, an implementation of \<^verbatim>\<open>ts.DocumentRegistry\<close> that keeps
  one parsed source file per standardized file path.
\<close>

subsection \<open>Data\<close>

text \<open>
  A \<^verbatim>\<open>StandardizedFilePath\<close> is a branded string. A script snapshot is read by the
  registry's collaborators only; it is modelled by its text. \<^verbatim>\<open>ScriptTarget\<close> and
  \<^verbatim>\<open>ScriptKind\<close> are numeric enums of the compiler; \<^verbatim>\<open>ts.Path\<close> and
  \<^verbatim>\<open>ts.DocumentRegistryBucketKey\<close> are branded strings.
\<close>

type_synonym standardizedFilePath = string
type_synonym scriptSnapshot = string
type_synonym scriptTarget = nat
type_synonym scriptKind = nat
type_synonym tsPath = string
type_synonym documentRegistryBucketKey = string

text \<open>Of the compiler options the registry reads \<^verbatim>\<open>target\<close> only, which may be undefined.\<close>

record compilerOptions =
  target :: "scriptTarget option"

text \<open>
  A \<^verbatim>\<open>ts.SourceFile\<close> is a JavaScript object: two source files are the same instance
  when they are the same object. The field \<open>ident\<close> is the identity of the object:
  \<open>Parsed n\<close> is the object allocated by the parser invocation number \<open>n\<close> (counted
  from 0), \<open>Preloaded k\<close> an object that a document cache holds. The registry reads the
  property \<^verbatim>\<open>version\<close> only (through a cast to \<^verbatim>\<open>any\<close>), which may be absent.
\<close>

datatype objectId = Parsed nat | Preloaded nat

record sourceFile =
  ident :: objectId
  fileName :: standardizedFilePath
  sourceText :: string
  languageVersion :: "scriptTarget option"
  scriptKindOf :: "scriptKind option"
  version :: "string option"

text \<open>What an operation of the registry can throw.\<close>

datatype error = NotImplementedError | ParseFailure string

text \<open>
  The method \<^verbatim>\<open>getDocumentIfMatch\<close> of a \<^verbatim>\<open>FileSystemSpecificDocumentCache\<close>: the
  document for a file path, snapshot, script target and script kind, or undefined.
\<close>

type_synonym fileSystemSpecificDocumentCache =
  "standardizedFilePath \<Rightarrow> scriptSnapshot \<Rightarrow> scriptTarget option \<Rightarrow> scriptKind option
    \<Rightarrow> sourceFile option"

text \<open>
  The collaborators of a registry, fixed when it is constructed or imported by the
  module; none of them is defined in the file itself, so they are parameters:
  \<^item> \<open>getStandardizedAbsolutePath\<close> of the transactional file system;
  \<^item> \<open>documentCaches\<close>, undefined or the caches in the order of registration;
  \<^item> \<open>createCompilerSourceFile\<close>, the parser, which returns a source file or throws.
    Its first argument is not one of the source's: it is the number of parser
    invocations made before this one, which names the object the parser allocates;
  \<^item> \<open>inexactSuccessorToString\<close>, the arithmetic of the JavaScript engine beyond the
    integers that a Number holds exactly: for a decimal integer \<open>m\<close> of magnitude above
    \<open>2 ^ 53\<close> it is the string \<^verbatim>\<open>(parseInt(s, 10) + 1).toString()\<close> where \<^verbatim>\<open>s\<close> writes
    \<open>m\<close>. There the engine rounds to a double, adds with rounding, and prints the
    shortest digits or an exponent form; the standard leaves part of this to the
    implementation.
\<close>

record collaborators =
  getStandardizedAbsolutePath :: "string \<Rightarrow> standardizedFilePath"
  documentCaches :: "fileSystemSpecificDocumentCache list option"
  createCompilerSourceFile ::
    "nat \<Rightarrow> standardizedFilePath \<Rightarrow> scriptSnapshot \<Rightarrow> scriptTarget option \<Rightarrow> string \<Rightarrow> bool
      \<Rightarrow> scriptKind option \<Rightarrow> error + sourceFile"
  inexactSuccessorToString :: "int \<Rightarrow> string"

text \<open>
  The mutable state: the map \<^verbatim>\<open>sourceFileCacheByFilePath\<close> of the registry, and the
  number of calls made so far to the parser and to \<^verbatim>\<open>getDocumentIfMatch\<close> of any
  document cache, which is how the invocations of the collaborators are observed.
\<close>

record registry =
  sourceFileCacheByFilePath :: "standardizedFilePath \<rightharpoonup> sourceFile"
  parserCalls :: nat
  cacheQueries :: nat

definition initialVersion :: string where
  "initialVersion = ''0''"

subsection \<open>Numbers and strings of JavaScript\<close>

text \<open>
  A Number of the source is a double. The integers of magnitude up to \<open>2 ^ 53\<close> are
  doubles, and on them the arithmetic and the printing of the source are those of the
  integers. \<open>SafeInteger i\<close> is such a Number. \<open>Inexact m\<close> is the Number that the engine
  makes of a decimal integer \<open>m\<close> beyond them, which is not computed here.
\<close>

datatype jsNumber = NaN | SafeInteger int | Inexact int

definition exactLimit :: int where
  "exactLimit = 2 ^ 53"

text \<open>
  \<^verbatim>\<open>parseInt(string, 10)\<close> skips leading white space, reads an optional sign and then
  the longest run of decimal digits; with no digit the result is \<^verbatim>\<open>NaN\<close>. A \<open>char\<close>
  is a code unit below 256, so the white space is that of Latin-1: TAB, LF, VT, FF, CR,
  SP and NBSP.
\<close>

definition isStrWhiteSpaceChar :: "char \<Rightarrow> bool" where
  "isStrWhiteSpaceChar c \<longleftrightarrow> (of_char c :: nat) \<in> {9, 10, 11, 12, 13, 32, 160}"

definition isDecimalDigit :: "char \<Rightarrow> bool" where
  "isDecimalDigit c \<longleftrightarrow> (48::nat) \<le> of_char c \<and> of_char c \<le> (57::nat)"

definition digitValue :: "char \<Rightarrow> nat" where
  "digitValue c = of_char c - 48"

definition digitChar :: "nat \<Rightarrow> char" where
  "digitChar d = char_of (48 + d)"

definition parseInt :: "string \<Rightarrow> jsNumber" where
  "parseInt inputString =
     (let S = dropWhile isStrWhiteSpaceChar inputString;
          sign = (if S \<noteq> [] \<and> hd S = CHR ''-'' then - 1 else 1);
          S' = (if S \<noteq> [] \<and> (hd S = CHR ''+'' \<or> hd S = CHR ''-'') then tl S else S);
          Z = takeWhile isDecimalDigit S'
      in if Z = [] then NaN
         else (let mathInt = sign * int (foldl (\<lambda>n c. 10 * n + digitValue c) 0 Z)
               in if \<bar>mathInt\<bar> \<le> exactLimit then SafeInteger mathInt else Inexact mathInt))"

fun natToString :: "nat \<Rightarrow> string" where
  "natToString n =
     (if n < 10 then [digitChar n] else natToString (n div 10) @ [digitChar (n mod 10)])"

declare natToString.simps [simp del]

text \<open>
  \<^verbatim>\<open>toString\<close> of a safe integer: it has fewer than 21 digits, so its decimal digits are
  written out, after a minus sign when it is negative.
\<close>

definition decimalString :: "int \<Rightarrow> string" where
  "decimalString i = (if i < 0 then CHR ''-'' # natToString (nat (- i)) else natToString (nat i))"

text \<open>
  \<^verbatim>\<open>(x + 1).toString()\<close>. Below \<open>2 ^ 53\<close> the sum is exact. At \<open>2 ^ 53\<close> the sum
  \<open>2 ^ 53 + 1\<close> is no double: it lies half way between \<open>2 ^ 53\<close> and \<open>2 ^ 53 + 2\<close> and is
  rounded to the even one, \<open>2 ^ 53\<close> itself.
\<close>

definition addOneToString :: "collaborators \<Rightarrow> jsNumber \<Rightarrow> string" where
  "addOneToString env x =
     (case x of
        NaN \<Rightarrow> ''NaN''
      | SafeInteger i \<Rightarrow> decimalString (if i < exactLimit then i + 1 else i)
      | Inexact m \<Rightarrow> inexactSuccessorToString env m)"

subsection \<open>The methods\<close>

text \<open>\<^verbatim>\<open>(sourceFile as any).version || "0"\<close>: undefined and the empty string are falsy.\<close>

definition getSourceFileVersion :: "sourceFile \<Rightarrow> string" where
  "getSourceFileVersion sf =
     (case version sf of None \<Rightarrow> ''0'' | Some v \<Rightarrow> if v = [] then ''0'' else v)"

text \<open>\<^verbatim>\<open>parseInt(...) || 0\<close>: \<^verbatim>\<open>NaN\<close> is falsy, and so is 0, which stays 0.\<close>

definition getNextSourceFileVersion :: "collaborators \<Rightarrow> sourceFile \<Rightarrow> string" where
  "getNextSourceFileVersion env sf =
     (let currentVersion =
        (case parseInt (getSourceFileVersion sf) of NaN \<Rightarrow> SafeInteger 0 | number \<Rightarrow> number)
      in addOneToString env currentVersion)"

text \<open>
  \<^verbatim>\<open>if (this.documentCaches) for (const cache of this.documentCaches)\<close>: with no
  caches given to the constructor the loop has nothing to run over.
\<close>

definition registeredCaches :: "collaborators \<Rightarrow> fileSystemSpecificDocumentCache list" where
  "registeredCaches env = (case documentCaches env of None \<Rightarrow> [] | Some caches \<Rightarrow> caches)"

text \<open>
  The loop of \<^verbatim>\<open>updateSourceFile\<close> over the document caches: the first document that a
  cache returns is stored under the file name and returned; every cache asked counts as
  a query.
\<close>

fun getDocumentFromCaches ::
  "fileSystemSpecificDocumentCache list \<Rightarrow> standardizedFilePath \<Rightarrow> scriptSnapshot
    \<Rightarrow> scriptTarget option \<Rightarrow> scriptKind option \<Rightarrow> registry \<Rightarrow> sourceFile option \<times> registry" where
  "getDocumentFromCaches [] fName snapshot tgt kind r = (None, r)"
| "getDocumentFromCaches (cache # caches) fName snapshot tgt kind r =
     (let r' = r\<lparr>cacheQueries := cacheQueries r + 1\<rparr>
      in case cache fName snapshot tgt kind of
           Some document \<Rightarrow>
             (Some document,
              r'\<lparr>sourceFileCacheByFilePath := (sourceFileCacheByFilePath r')(fName \<mapsto> document)\<rparr>)
         | None \<Rightarrow> getDocumentFromCaches caches fName snapshot tgt kind r')"

definition updateSourceFile ::
  "collaborators \<Rightarrow> standardizedFilePath \<Rightarrow> compilerOptions \<Rightarrow> scriptSnapshot \<Rightarrow> string
    \<Rightarrow> scriptKind option \<Rightarrow> registry \<Rightarrow> (error + sourceFile) \<times> registry" where
  "updateSourceFile env fName settings snapshot ver kind r =
     (case getDocumentFromCaches (registeredCaches env) fName snapshot (target settings) kind r of
        (Some document, r') \<Rightarrow> (Inr document, r')
      | (None, r') \<Rightarrow>
          (case createCompilerSourceFile env (parserCalls r') fName snapshot (target settings)
                  ver True kind of
             Inl e \<Rightarrow> (Inl e, r'\<lparr>parserCalls := parserCalls r' + 1\<rparr>)
           | Inr newSourceFile \<Rightarrow>
               (Inr newSourceFile,
                r'\<lparr>sourceFileCacheByFilePath :=
                      (sourceFileCacheByFilePath r')(fName \<mapsto> newSourceFile),
                    parserCalls := parserCalls r' + 1\<rparr>)))"

definition createOrUpdateSourceFile ::
  "collaborators \<Rightarrow> standardizedFilePath \<Rightarrow> compilerOptions \<Rightarrow> scriptSnapshot
    \<Rightarrow> scriptKind option \<Rightarrow> registry \<Rightarrow> (error + sourceFile) \<times> registry" where
  "createOrUpdateSourceFile env fName settings snapshot kind r =
     (case sourceFileCacheByFilePath r fName of
        None \<Rightarrow> updateSourceFile env fName settings snapshot initialVersion kind r
      | Some sf \<Rightarrow>
          updateSourceFile env fName settings snapshot (getNextSourceFileVersion env sf) kind r)"

definition removeSourceFile :: "standardizedFilePath \<Rightarrow> registry \<Rightarrow> registry" where
  "removeSourceFile fName r =
     r\<lparr>sourceFileCacheByFilePath := (sourceFileCacheByFilePath r)(fName := None)\<rparr>"

definition acquireDocument ::
  "collaborators \<Rightarrow> string \<Rightarrow> compilerOptions \<Rightarrow> scriptSnapshot \<Rightarrow> string
    \<Rightarrow> scriptKind option \<Rightarrow> registry \<Rightarrow> (error + sourceFile) \<times> registry" where
  "acquireDocument env fName settings snapshot ver kind r =
     (let standardizedFilePath = getStandardizedAbsolutePath env fName
      in case sourceFileCacheByFilePath r standardizedFilePath of
           None \<Rightarrow> updateSourceFile env standardizedFilePath settings snapshot ver kind r
         | Some sf \<Rightarrow>
             if getSourceFileVersion sf \<noteq> ver
             then updateSourceFile env standardizedFilePath settings snapshot ver kind r
             else (Inr sf, r))"

definition acquireDocumentWithKey ::
  "collaborators \<Rightarrow> string \<Rightarrow> tsPath \<Rightarrow> compilerOptions \<Rightarrow> documentRegistryBucketKey
    \<Rightarrow> scriptSnapshot \<Rightarrow> string \<Rightarrow> scriptKind option \<Rightarrow> registry
    \<Rightarrow> (error + sourceFile) \<times> registry" where
  "acquireDocumentWithKey env fName path settings key snapshot ver kind r =
     acquireDocument env fName settings snapshot ver kind r"

definition updateDocument ::
  "collaborators \<Rightarrow> string \<Rightarrow> compilerOptions \<Rightarrow> scriptSnapshot \<Rightarrow> string
    \<Rightarrow> scriptKind option \<Rightarrow> registry \<Rightarrow> (error + sourceFile) \<times> registry" where
  "updateDocument env fName settings snapshot ver kind r =
     acquireDocument env fName settings snapshot ver kind r"

definition updateDocumentWithKey ::
  "collaborators \<Rightarrow> string \<Rightarrow> tsPath \<Rightarrow> compilerOptions \<Rightarrow> documentRegistryBucketKey
    \<Rightarrow> scriptSnapshot \<Rightarrow> string \<Rightarrow> scriptKind option \<Rightarrow> registry
    \<Rightarrow> (error + sourceFile) \<times> registry" where
  "updateDocumentWithKey env fName path settings key snapshot ver kind r =
     updateDocument env fName settings snapshot ver kind r"

definition getKeyForCompilationSettings :: "compilerOptions \<Rightarrow> documentRegistryBucketKey" where
  "getKeyForCompilationSettings settings = ''defaultKey''"

text \<open>The two release methods have an empty body.\<close>

definition releaseDocument :: "string \<Rightarrow> compilerOptions \<Rightarrow> registry \<Rightarrow> registry" where
  "releaseDocument fName settings r = r"

definition releaseDocumentWithKey :: "tsPath \<Rightarrow> documentRegistryBucketKey \<Rightarrow> registry \<Rightarrow> registry" where
  "releaseDocumentWithKey path key r = r"

definition reportStats :: "registry \<Rightarrow> (error + string) \<times> registry" where
  "reportStats r = (Inl NotImplementedError, r)"

subsection \<open>Sequences of calls and conditions on the collaborators\<close>


text \<open>
  \<open>createOrUpdateTimes\<close> calls \<open>createOrUpdateSourceFile\<close> once for each request of a
  list, in order and for one file name, and collects what the calls return.
\<close>

fun createOrUpdateTimes ::
  "collaborators \<Rightarrow> standardizedFilePath \<Rightarrow> (compilerOptions \<times> scriptSnapshot \<times> scriptKind option) list
    \<Rightarrow> registry \<Rightarrow> (error + sourceFile) list \<times> registry" where
  "createOrUpdateTimes env fName [] r = ([], r)"
| "createOrUpdateTimes env fName ((settings, snapshot, kind) # requests) r =
     (case createOrUpdateSourceFile env fName settings snapshot kind r of
        (result, r') \<Rightarrow>
          (case createOrUpdateTimes env fName requests r' of
             (results, r'') \<Rightarrow> (result # results, r'')))"

text \<open>No registered document cache has a document for the request.\<close>

definition noCacheMatches ::
  "collaborators \<Rightarrow> standardizedFilePath \<Rightarrow> scriptSnapshot \<Rightarrow> scriptTarget option
    \<Rightarrow> scriptKind option \<Rightarrow> bool" where
  "noCacheMatches env fName snapshot tgt kind \<longleftrightarrow>
     list_all (\<lambda>cache. cache fName snapshot tgt kind = None) (registeredCaches env)"

text \<open>
  What the registry relies on in the parser: a source file that the parser returns is a
  new object, and its \<^verbatim>\<open>version\<close> is the version the parser was called with.
\<close>

definition parserRecordsVersion :: "collaborators \<Rightarrow> bool" where
  "parserRecordsVersion env \<longleftrightarrow>
     (\<forall>n fName snapshot tgt ver setParentNodes kind sf.
        createCompilerSourceFile env n fName snapshot tgt ver setParentNodes kind = Inr sf
          \<longrightarrow> ident sf = Parsed n \<and> version sf = Some ver)"


subsection \<open>Concrete collaborators\<close>

text \<open>
  Modelled from the spec: \<^verbatim>\<open>createCompilerSourceFile\<close> is imported from
  \<^verbatim>\<open>./createCompilerSourceFile\<close>, which is not among the sources. The spec describes
  the parser as a pure function from path, snapshot, dialect, version, the flag to set
  parent pointers and script kind to a parsed tree, which carries its revision and the
  dialect and kind it was parsed with.
\<close>

definition specParser ::
  "nat \<Rightarrow> standardizedFilePath \<Rightarrow> scriptSnapshot \<Rightarrow> scriptTarget option \<Rightarrow> string \<Rightarrow> bool
    \<Rightarrow> scriptKind option \<Rightarrow> error + sourceFile" where
  "specParser n fName snapshot tgt ver setParentNodes kind =
     Inr \<lparr>ident = Parsed n, fileName = fName, sourceText = snapshot, languageVersion = tgt,
          scriptKindOf = kind, version = Some ver\<rparr>"

text \<open>
  The concrete registries below never hold a version beyond the safe integers, so what
  the engine answers there is never asked of them; it is given as the digits of \<open>m\<close>.
\<close>

definition engineBeyondSafeIntegers :: "int \<Rightarrow> string" where
  "engineBeyondSafeIntegers m = decimalString m"

text \<open>A parser that throws on the snapshot \<open>bad\<close> and parses every other one.\<close>

definition rejectingParser ::
  "scriptSnapshot \<Rightarrow> nat \<Rightarrow> standardizedFilePath \<Rightarrow> scriptSnapshot \<Rightarrow> scriptTarget option \<Rightarrow> string
    \<Rightarrow> bool \<Rightarrow> scriptKind option \<Rightarrow> error + sourceFile" where
  "rejectingParser bad n fName snapshot tgt ver setParentNodes kind =
     (if snapshot = bad then Inl (ParseFailure ''syntax'')
      else specParser n fName snapshot tgt ver setParentNodes kind)"

text \<open>
  A document cache that holds one document, the object \<open>Preloaded k\<close> with the version
  \<open>ver\<close>, for the file \<open>name\<close> with the text \<open>content\<close>.
\<close>

definition preloadedDocument :: "nat \<Rightarrow> standardizedFilePath \<Rightarrow> string \<Rightarrow> string \<Rightarrow> sourceFile" where
  "preloadedDocument k name content ver =
     \<lparr>ident = Preloaded k, fileName = name, sourceText = content, languageVersion = None,
      scriptKindOf = None, version = Some ver\<rparr>"

definition cacheHolding ::
  "nat \<Rightarrow> standardizedFilePath \<Rightarrow> string \<Rightarrow> string \<Rightarrow> fileSystemSpecificDocumentCache" where
  "cacheHolding k name content ver fName snapshot tgt kind =
     (if fName = name \<and> snapshot = content then Some (preloadedDocument k name content ver)
      else None)"

definition plainEnv :: collaborators where
  "plainEnv =
     \<lparr>getStandardizedAbsolutePath = (\<lambda>fName. fName), documentCaches = None,
      createCompilerSourceFile = specParser, inexactSuccessorToString = engineBeyondSafeIntegers\<rparr>"

definition cachedEnv :: collaborators where
  "cachedEnv =
     \<lparr>getStandardizedAbsolutePath = (\<lambda>fName. fName),
      documentCaches =
        Some [cacheHolding 0 ''/a.ts'' ''let x;'' ''-1'', cacheHolding 1 ''/a.ts'' ''let x;'' ''-1''],
      createCompilerSourceFile = specParser, inexactSuccessorToString = engineBeyondSafeIntegers\<rparr>"

definition rejectingEnv :: collaborators where
  "rejectingEnv =
     \<lparr>getStandardizedAbsolutePath = (\<lambda>fName. fName), documentCaches = None,
      createCompilerSourceFile = rejectingParser ''}{'',
      inexactSuccessorToString = engineBeyondSafeIntegers\<rparr>"

definition emptyRegistry :: registry where
  "emptyRegistry = \<lparr>sourceFileCacheByFilePath = Map.empty, parserCalls = 0, cacheQueries = 0\<rparr>"

text \<open>A registry that holds one file, parsed at the version 5.\<close>

definition oneFileRegistry :: registry where
  "oneFileRegistry =
     \<lparr>sourceFileCacheByFilePath =
        [''/a.ts'' \<mapsto> \<lparr>ident = Parsed 0, fileName = ''/a.ts'', sourceText = ''let x;'',
            languageVersion = Some 2, scriptKindOf = None, version = Some ''5''\<rparr>],
      parserCalls = 1, cacheQueries = 0\<rparr>"

definition es2015 :: compilerOptions where
  "es2015 = \<lparr>target = Some 2\<rparr>"

text \<open>The source file that \<open>specParser\<close> returns as object \<open>n\<close> for the file of \<open>oneFileRegistry\<close>.\<close>

definition versionFile :: "nat \<Rightarrow> string \<Rightarrow> sourceFile" where
  "versionFile n ver =
     \<lparr>ident = Parsed n, fileName = ''/a.ts'', sourceText = ''let x;'', languageVersion = Some 2,
      scriptKindOf = None, version = Some ver\<rparr>"


text \<open>
  The registry after one materialization that the first cache of \<open>cachedEnv\<close> has
  answered.
\<close>

definition cacheFilledRegistry :: registry where
  "cacheFilledRegistry =
     \<lparr>sourceFileCacheByFilePath = [''/a.ts'' \<mapsto> preloadedDocument 0 ''/a.ts'' ''let x;'' ''-1''],
      parserCalls = 0, cacheQueries = 1\<rparr>"

section \<open>Auxiliary facts\<close>

subsection \<open>Decimal numerals\<close>












subsection \<open>The loop over the document caches\<close>

lemma getDocumentFromCaches_none:
  "list_all (\<lambda>cache. cache fName snapshot tgt kind = None) caches \<Longrightarrow>
   getDocumentFromCaches caches fName snapshot tgt kind r =
     (None, r\<lparr>cacheQueries := cacheQueries r + length caches\<rparr>)"
  by (induction caches arbitrary: r) simp_all

lemma getDocumentFromCaches_first:
  "list_all (\<lambda>cache. cache fName snapshot tgt kind = None) before \<Longrightarrow>
   cache fName snapshot tgt kind = Some document \<Longrightarrow>
   getDocumentFromCaches (before @ cache # after) fName snapshot tgt kind r =
     (Some document,
      r\<lparr>cacheQueries := cacheQueries r + length before + 1,
        sourceFileCacheByFilePath := (sourceFileCacheByFilePath r)(fName \<mapsto> document)\<rparr>)"
  by (induction before arbitrary: r) simp_all


lemma updateSourceFile_no_match:
  "noCacheMatches env fName snapshot (target settings) kind \<Longrightarrow>
   updateSourceFile env fName settings snapshot ver kind r =
     (case createCompilerSourceFile env (parserCalls r) fName snapshot (target settings) ver True kind of
        Inl e \<Rightarrow>
          (Inl e,
           r\<lparr>cacheQueries := cacheQueries r + length (registeredCaches env),
             parserCalls := parserCalls r + 1\<rparr>)
      | Inr newSourceFile \<Rightarrow>
          (Inr newSourceFile,
           r\<lparr>cacheQueries := cacheQueries r + length (registeredCaches env),
             sourceFileCacheByFilePath := (sourceFileCacheByFilePath r)(fName \<mapsto> newSourceFile),
             parserCalls := parserCalls r + 1\<rparr>))"
  by (simp add: updateSourceFile_def noCacheMatches_def getDocumentFromCaches_none split: sum.splits)


subsection \<open>The two branches of acquireDocument\<close>

lemma acquireDocument_miss:
  assumes "\<forall>sf. sourceFileCacheByFilePath r (getStandardizedAbsolutePath env fName) = Some sf
      \<longrightarrow> getSourceFileVersion sf \<noteq> ver"
  shows "acquireDocument env fName settings snapshot ver kind r =
     updateSourceFile env (getStandardizedAbsolutePath env fName) settings snapshot ver kind r"
  using assms by (simp add: acquireDocument_def Let_def split: option.splits)

lemma acquireDocument_hit:
  assumes "sourceFileCacheByFilePath r (getStandardizedAbsolutePath env fName) = Some sf"
    and "getSourceFileVersion sf = ver"
  shows "acquireDocument env fName settings snapshot ver kind r = (Inr sf, r)"
  using assms by (simp add: acquireDocument_def Let_def)

lemma getSourceFileVersion_nonempty: "getSourceFileVersion sf \<noteq> []"
  by (simp add: getSourceFileVersion_def split: option.splits)


subsection \<open>Materializing with the parser\<close>

lemma getSourceFileVersion_recorded:
  "version sf = Some ver \<Longrightarrow> ver \<noteq> [] \<Longrightarrow> getSourceFileVersion sf = ver"
  by (simp add: getSourceFileVersion_def)

lemma updateSourceFile_parsed:
  assumes "noCacheMatches env fName snapshot (target settings) kind"
    and "createCompilerSourceFile env (parserCalls r) fName snapshot (target settings) ver True kind = Inr sf"
  shows "updateSourceFile env fName settings snapshot ver kind r =
     (Inr sf,
      r\<lparr>cacheQueries := cacheQueries r + length (registeredCaches env),
        sourceFileCacheByFilePath := (sourceFileCacheByFilePath r)(fName \<mapsto> sf),
        parserCalls := parserCalls r + 1\<rparr>)"
  using assms by (simp add: updateSourceFile_no_match)

lemma updateSourceFile_returns:
  assumes "noCacheMatches env fName snapshot (target settings) kind"
    and "updateSourceFile env fName settings snapshot ver kind r = (Inr sf, r')"
  shows "createCompilerSourceFile env (parserCalls r) fName snapshot (target settings) ver True kind = Inr sf
    \<and> r' = r\<lparr>cacheQueries := cacheQueries r + length (registeredCaches env),
        sourceFileCacheByFilePath := (sourceFileCacheByFilePath r)(fName \<mapsto> sf),
        parserCalls := parserCalls r + 1\<rparr>"
  using assms by (auto simp: updateSourceFile_no_match split: sum.splits)




subsection \<open>Counting versions\<close>









subsection \<open>The concrete collaborators\<close>

lemma plain_no_match: "noCacheMatches plainEnv f s t k"
  by (simp add: noCacheMatches_def registeredCaches_def plainEnv_def)

lemma plain_caches: "registeredCaches plainEnv = []"
  by (simp add: registeredCaches_def plainEnv_def)

lemma plain_path: "getStandardizedAbsolutePath plainEnv f = f"
  by (simp add: plainEnv_def)

lemma plain_records: "parserRecordsVersion plainEnv"
  by (simp add: parserRecordsVersion_def plainEnv_def specParser_def)


lemma plain_acquire_empty:
  "acquireDocument plainEnv ''/a.ts'' es2015 ''let x;'' ver None emptyRegistry =
     (Inr (versionFile 0 ver),
      \<lparr>sourceFileCacheByFilePath = [''/a.ts'' \<mapsto> versionFile 0 ver], parserCalls = 1,
        cacheQueries = 0\<rparr>)"
  by (simp add: acquireDocument_def Let_def updateSourceFile_def registeredCaches_def plainEnv_def
      specParser_def emptyRegistry_def es2015_def versionFile_def)

lemma plain_acquire_second:
  "acquireDocument plainEnv ''/a.ts'' es2015 ''let x;'' ver' None
     \<lparr>sourceFileCacheByFilePath = [''/a.ts'' \<mapsto> versionFile 0 ver], parserCalls = 1,
        cacheQueries = 0\<rparr> =
     (if getSourceFileVersion (versionFile 0 ver) \<noteq> ver'
      then (Inr (versionFile 1 ver'),
        \<lparr>sourceFileCacheByFilePath = [''/a.ts'' \<mapsto> versionFile 1 ver'], parserCalls = 2,
          cacheQueries = 0\<rparr>)
      else (Inr (versionFile 0 ver),
        \<lparr>sourceFileCacheByFilePath = [''/a.ts'' \<mapsto> versionFile 0 ver], parserCalls = 1,
          cacheQueries = 0\<rparr>))"
  by (simp add: acquireDocument_def Let_def updateSourceFile_def registeredCaches_def plainEnv_def
      specParser_def es2015_def versionFile_def)



section \<open>Properties\<close>

text \<open>
  C1 (as amended). For every version string other than the empty one: when no registered
  document cache has a document for the request, the parser records the version it is
  given, and a first call of \<open>acquireDocument\<close> has returned a source file, a second call
  with the same arguments returns the same source file and leaves the state as the first
  call left it, so that it neither parses nor asks a cache nor stores an entry. Across the
  two calls the parser is called once when the first call found no entry of the
  requested version, and not at all when it found one.
\<close>

theorem acquire_twice_same_instance:
  assumes rec: "parserRecordsVersion env"
    and ne: "ver \<noteq> []"
    and nm: "noCacheMatches env (getStandardizedAbsolutePath env fName) snapshot (target settings) kind"
    and first: "acquireDocument env fName settings snapshot ver kind r = (Inr sf, r1)"
  shows "acquireDocument env fName settings snapshot ver kind r1 = (Inr sf, r1)
    \<and> parserCalls r1 =
        (case sourceFileCacheByFilePath r (getStandardizedAbsolutePath env fName) of
           None \<Rightarrow> parserCalls r + 1
         | Some sf0 \<Rightarrow> if getSourceFileVersion sf0 = ver then parserCalls r else parserCalls r + 1)"
proof (cases "\<exists>sf0. sourceFileCacheByFilePath r (getStandardizedAbsolutePath env fName) = Some sf0
    \<and> getSourceFileVersion sf0 = ver")
  case True
  then obtain sf0 where e: "sourceFileCacheByFilePath r (getStandardizedAbsolutePath env fName) = Some sf0"
    and v: "getSourceFileVersion sf0 = ver" by blast
  from first acquireDocument_hit [OF e v, of settings snapshot kind]
  have "sf = sf0" "r1 = r" by simp_all
  with e v acquireDocument_hit [OF e v, of settings snapshot kind] show ?thesis by simp
next
  case False
  then have miss: "\<forall>sf0. sourceFileCacheByFilePath r (getStandardizedAbsolutePath env fName) = Some sf0
      \<longrightarrow> getSourceFileVersion sf0 \<noteq> ver" by blast
  from first acquireDocument_miss [OF miss, of settings snapshot kind]
  have u: "updateSourceFile env (getStandardizedAbsolutePath env fName) settings snapshot ver kind r =
      (Inr sf, r1)" by simp
  note ret = updateSourceFile_returns [OF nm u]
  from ret rec have "version sf = Some ver" by (auto simp: parserRecordsVersion_def)
  with ne have v: "getSourceFileVersion sf = ver" by (simp add: getSourceFileVersion_recorded)
  from ret have e: "sourceFileCacheByFilePath r1 (getStandardizedAbsolutePath env fName) = Some sf"
    and c: "parserCalls r1 = parserCalls r + 1" by simp_all
  from miss c acquireDocument_hit [OF e v, of settings snapshot kind] show ?thesis
    by (auto split: option.splits)
qed

text \<open>
  The theorem at the version 5 in a registry without caches that starts empty.
\<close>

theorem acquire_twice_same_instance_witness:
  "parserRecordsVersion plainEnv \<and> ''5'' \<noteq> []
   \<and> noCacheMatches plainEnv (getStandardizedAbsolutePath plainEnv ''/a.ts'') ''let x;'' (target es2015) None
   \<and> acquireDocument plainEnv ''/a.ts'' es2015 ''let x;'' ''5'' None emptyRegistry =
       (Inr (versionFile 0 ''5''),
        \<lparr>sourceFileCacheByFilePath = [''/a.ts'' \<mapsto> versionFile 0 ''5''], parserCalls = 1,
          cacheQueries = 0\<rparr>)
   \<and> acquireDocument plainEnv ''/a.ts'' es2015 ''let x;'' ''5'' None
        \<lparr>sourceFileCacheByFilePath = [''/a.ts'' \<mapsto> versionFile 0 ''5''], parserCalls = 1,
          cacheQueries = 0\<rparr> =
       (Inr (versionFile 0 ''5''),
        \<lparr>sourceFileCacheByFilePath = [''/a.ts'' \<mapsto> versionFile 0 ''5''], parserCalls = 1,
          cacheQueries = 0\<rparr>)"
proof -
  have ne: "''5'' \<noteq> []" by simp
  have nm: "noCacheMatches plainEnv (getStandardizedAbsolutePath plainEnv ''/a.ts'') ''let x;''
      (target es2015) None" by (rule plain_no_match)
  note first = plain_acquire_empty [of "''5''"]
  from acquire_twice_same_instance [OF plain_records ne nm first] ne nm first plain_records
  show ?thesis by blast
qed

text \<open>
  C1 as stated fails at the empty version string: after a first call the stored source
  file reports the version 0, which is not the empty string, so the second call parses
  again and returns another object. The parser is called twice.
\<close>

theorem acquire_twice_empty_version_counterexample:
  "acquireDocument plainEnv ''/a.ts'' es2015 ''let x;'' [] None emptyRegistry =
       (Inr (versionFile 0 []),
        \<lparr>sourceFileCacheByFilePath = [''/a.ts'' \<mapsto> versionFile 0 []], parserCalls = 1,
          cacheQueries = 0\<rparr>)
   \<and> acquireDocument plainEnv ''/a.ts'' es2015 ''let x;'' [] None
        \<lparr>sourceFileCacheByFilePath = [''/a.ts'' \<mapsto> versionFile 0 []], parserCalls = 1,
          cacheQueries = 0\<rparr> =
       (Inr (versionFile 1 []),
        \<lparr>sourceFileCacheByFilePath = [''/a.ts'' \<mapsto> versionFile 1 []], parserCalls = 2,
          cacheQueries = 0\<rparr>)
   \<and> versionFile 1 [] \<noteq> versionFile 0 []"
proof -
  have g: "getSourceFileVersion (versionFile 0 []) \<noteq> []"
    by (rule getSourceFileVersion_nonempty)
  have d: "versionFile 1 [] \<noteq> versionFile 0 []"
    by (simp add: versionFile_def)
  have "acquireDocument plainEnv ''/a.ts'' es2015 ''let x;'' [] None
        \<lparr>sourceFileCacheByFilePath = [''/a.ts'' \<mapsto> versionFile 0 []], parserCalls = 1,
          cacheQueries = 0\<rparr> =
       (Inr (versionFile 1 []),
        \<lparr>sourceFileCacheByFilePath = [''/a.ts'' \<mapsto> versionFile 1 []], parserCalls = 2,
          cacheQueries = 0\<rparr>)"
    unfolding plain_acquire_second using g by simp
  with d plain_acquire_empty [of "[]"] show ?thesis by blast
qed







text \<open>
  C4. When several registered document caches have a document for the request, the
  document of the first of them in the order of registration is returned, the very
  object that this cache returned, it is stored under the file name, and the parser is
  not called. The caches after the first match are not asked, whatever they hold.
\<close>

theorem first_matching_cache_wins:
  assumes "documentCaches env = Some (before @ cache # after)"
    and "list_all (\<lambda>c. c fName snapshot (target settings) kind = None) before"
    and "cache fName snapshot (target settings) kind = Some document"
  shows "updateSourceFile env fName settings snapshot ver kind r =
     (Inr document,
      r\<lparr>cacheQueries := cacheQueries r + length before + 1,
        sourceFileCacheByFilePath := (sourceFileCacheByFilePath r)(fName \<mapsto> document)\<rparr>)
    \<and> parserCalls (snd (updateSourceFile env fName settings snapshot ver kind r)) = parserCalls r"
  using assms
  by (simp add: updateSourceFile_def registeredCaches_def getDocumentFromCaches_first)

theorem first_matching_cache_wins_witness:
  "documentCaches cachedEnv =
     Some ([] @ cacheHolding 0 ''/a.ts'' ''let x;'' ''-1'' # [cacheHolding 1 ''/a.ts'' ''let x;'' ''-1''])
   \<and> cacheHolding 0 ''/a.ts'' ''let x;'' ''-1'' ''/a.ts'' ''let x;'' (target es2015) None =
       Some (preloadedDocument 0 ''/a.ts'' ''let x;'' ''-1'')
   \<and> cacheHolding 1 ''/a.ts'' ''let x;'' ''-1'' ''/a.ts'' ''let x;'' (target es2015) None =
       Some (preloadedDocument 1 ''/a.ts'' ''let x;'' ''-1'')
   \<and> fst (updateSourceFile cachedEnv ''/a.ts'' es2015 ''let x;'' ''0'' None emptyRegistry) =
       Inr (preloadedDocument 0 ''/a.ts'' ''let x;'' ''-1'')
   \<and> sourceFileCacheByFilePath
        (snd (updateSourceFile cachedEnv ''/a.ts'' es2015 ''let x;'' ''0'' None emptyRegistry)) ''/a.ts'' =
       Some (preloadedDocument 0 ''/a.ts'' ''let x;'' ''-1'')
   \<and> parserCalls (snd (updateSourceFile cachedEnv ''/a.ts'' es2015 ''let x;'' ''0'' None emptyRegistry)) = 0"
proof -
  have d: "documentCaches cachedEnv =
     Some ([] @ cacheHolding 0 ''/a.ts'' ''let x;'' ''-1'' # [cacheHolding 1 ''/a.ts'' ''let x;'' ''-1''])"
    by (simp add: cachedEnv_def)
  have n: "list_all (\<lambda>c. c ''/a.ts'' ''let x;'' (target es2015) None = None) []"
    by simp
  have m: "cacheHolding 0 ''/a.ts'' ''let x;'' ''-1'' ''/a.ts'' ''let x;'' (target es2015) None =
       Some (preloadedDocument 0 ''/a.ts'' ''let x;'' ''-1'')"
    by (simp add: cacheHolding_def)
  have m': "cacheHolding 1 ''/a.ts'' ''let x;'' ''-1'' ''/a.ts'' ''let x;'' (target es2015) None =
       Some (preloadedDocument 1 ''/a.ts'' ''let x;'' ''-1'')"
    by (simp add: cacheHolding_def)
  show ?thesis
    using d m m' first_matching_cache_wins [OF d n m, of "''0''" emptyRegistry]
    by (simp add: emptyRegistry_def)
qed






text \<open>
  C7 (as amended). Whatever the registry held for the path, when no registered document
  cache has a document for the request and the parser records the version it is given
  and returns, \<open>removeSourceFile\<close> followed by \<open>createOrUpdateSourceFile\<close> returns a
  source file at the initial version 0. Removal is not the only operation after which
  the versions of a path start again.
\<close>

theorem remove_then_create_restarts:
  assumes rec: "parserRecordsVersion env"
    and nm: "noCacheMatches env fName snapshot (target settings) kind"
    and parse: "createCompilerSourceFile env (parserCalls r) fName snapshot (target settings)
        initialVersion True kind = Inr sf"
  shows "createOrUpdateSourceFile env fName settings snapshot kind (removeSourceFile fName r) =
      (Inr sf,
       r\<lparr>cacheQueries := cacheQueries r + length (registeredCaches env),
         sourceFileCacheByFilePath := (sourceFileCacheByFilePath r)(fName \<mapsto> sf),
         parserCalls := parserCalls r + 1\<rparr>)
    \<and> version sf = Some ''0'' \<and> getSourceFileVersion sf = ''0''"
proof -
  from parse rec have v: "version sf = Some ''0''"
    by (auto simp: parserRecordsVersion_def initialVersion_def)
  from parse have parse': "createCompilerSourceFile env (parserCalls (removeSourceFile fName r)) fName
      snapshot (target settings) initialVersion True kind = Inr sf"
    by (simp add: removeSourceFile_def)
  have "createOrUpdateSourceFile env fName settings snapshot kind (removeSourceFile fName r) =
      updateSourceFile env fName settings snapshot initialVersion kind (removeSourceFile fName r)"
    by (simp add: createOrUpdateSourceFile_def removeSourceFile_def)
  with updateSourceFile_parsed [OF nm parse'] v show ?thesis
    by (simp add: removeSourceFile_def getSourceFileVersion_def)
qed

text \<open>
  The theorem in a registry that holds the path at version 5.
\<close>

theorem remove_then_create_restarts_witness:
  "parserRecordsVersion plainEnv
   \<and> noCacheMatches plainEnv ''/a.ts'' ''let y;'' (target es2015) None
   \<and> sourceFileCacheByFilePath oneFileRegistry ''/a.ts'' = Some (versionFile 0 ''5'')
   \<and> createCompilerSourceFile plainEnv (parserCalls oneFileRegistry) ''/a.ts'' ''let y;''
       (target es2015) initialVersion True None =
       Inr \<lparr>ident = Parsed 1, fileName = ''/a.ts'', sourceText = ''let y;'',
            languageVersion = Some 2, scriptKindOf = None, version = Some ''0''\<rparr>
   \<and> fst (createOrUpdateSourceFile plainEnv ''/a.ts'' es2015 ''let y;'' None
          (removeSourceFile ''/a.ts'' oneFileRegistry)) =
       Inr \<lparr>ident = Parsed 1, fileName = ''/a.ts'', sourceText = ''let y;'',
            languageVersion = Some 2, scriptKindOf = None, version = Some ''0''\<rparr>"
proof -
  have nm: "noCacheMatches plainEnv ''/a.ts'' ''let y;'' (target es2015) None"
    by (rule plain_no_match)
  have parse: "createCompilerSourceFile plainEnv (parserCalls oneFileRegistry) ''/a.ts'' ''let y;''
      (target es2015) initialVersion True None =
      Inr \<lparr>ident = Parsed 1, fileName = ''/a.ts'', sourceText = ''let y;'',
            languageVersion = Some 2, scriptKindOf = None, version = Some ''0''\<rparr>"
    by (simp add: plainEnv_def specParser_def oneFileRegistry_def es2015_def initialVersion_def)
  have e: "sourceFileCacheByFilePath oneFileRegistry ''/a.ts'' = Some (versionFile 0 ''5'')"
    by (simp add: oneFileRegistry_def versionFile_def)
  from remove_then_create_restarts [OF plain_records nm parse] plain_records nm e parse
  show ?thesis by simp
qed

text \<open>
  C7 as stated fails twice. Without any removal, \<open>acquireDocument\<close> at the version 0
  stores a source file of version 0 over an entry of version 1. And after a removal, a
  document cache that has a document for the request makes \<open>createOrUpdateSourceFile\<close>
  return that document, of version \<open>-1\<close>.
\<close>

theorem restart_without_remove_counterexample:
  "map (map_sum id version)
      (fst (createOrUpdateTimes plainEnv ''/a.ts'' [(es2015, ''a'', None), (es2015, ''b'', None)]
         emptyRegistry)) = [Inr (Some ''0''), Inr (Some ''1'')]
   \<and> map_sum id version
      (fst (acquireDocument plainEnv ''/a.ts'' es2015 ''c'' ''0'' None
         (snd (createOrUpdateTimes plainEnv ''/a.ts'' [(es2015, ''a'', None), (es2015, ''b'', None)]
            emptyRegistry)))) = Inr (Some ''0'')
   \<and> map_sum id version
      (fst (createOrUpdateSourceFile cachedEnv ''/a.ts'' es2015 ''let x;'' None
         (removeSourceFile ''/a.ts'' oneFileRegistry))) = Inr (Some ''-1'')"
  by code_simp

text \<open>
  C8. \<open>acquireDocumentWithKey\<close>, \<open>updateDocument\<close> and \<open>updateDocumentWithKey\<close> return what
  \<open>acquireDocument\<close> returns on the arguments they share and leave the same state: the key
  and the path are ignored.
\<close>

theorem key_variants_equal_acquire:
  "acquireDocumentWithKey env fName path settings key snapshot ver kind r =
     acquireDocument env fName settings snapshot ver kind r
   \<and> updateDocument env fName settings snapshot ver kind r =
     acquireDocument env fName settings snapshot ver kind r
   \<and> updateDocumentWithKey env fName path settings key snapshot ver kind r =
     acquireDocument env fName settings snapshot ver kind r"
  by (simp add: acquireDocumentWithKey_def updateDocument_def updateDocumentWithKey_def)

text \<open>
  C9. For every input, \<open>releaseDocument\<close> and \<open>releaseDocumentWithKey\<close> leave the state
  as it was: the map holds the same entries, and neither the parser nor a document cache
  has been called.
\<close>

theorem release_is_noop:
  "releaseDocument fName settings r = r \<and> releaseDocumentWithKey path key r = r
   \<and> sourceFileCacheByFilePath (releaseDocument fName settings r) = sourceFileCacheByFilePath r
   \<and> parserCalls (releaseDocument fName settings r) = parserCalls r
   \<and> cacheQueries (releaseDocument fName settings r) = cacheQueries r
   \<and> sourceFileCacheByFilePath (releaseDocumentWithKey path key r) = sourceFileCacheByFilePath r
   \<and> parserCalls (releaseDocumentWithKey path key r) = parserCalls r
   \<and> cacheQueries (releaseDocumentWithKey path key r) = cacheQueries r"
  by (simp add: releaseDocument_def releaseDocumentWithKey_def)

text \<open>
  C10 (as amended). A source file whose \<^verbatim>\<open>version\<close> is absent or the empty string
  reports the version 0. So \<open>acquireDocument\<close> at the empty version string never takes
  the branch of the cache hit: in every state, also right after the same call, it
  materializes the source file; and when no document cache has a document for the
  request and the parser returns, what the parser returns is stored and returned.
\<close>

theorem empty_version_never_hits:
  "(version sf = None \<or> version sf = Some [] \<longrightarrow> getSourceFileVersion sf = ''0'')
   \<and> acquireDocument env fName settings snapshot [] kind r =
       updateSourceFile env (getStandardizedAbsolutePath env fName) settings snapshot [] kind r
   \<and> (noCacheMatches env (getStandardizedAbsolutePath env fName) snapshot (target settings) kind \<longrightarrow>
       createCompilerSourceFile env (parserCalls r) (getStandardizedAbsolutePath env fName) snapshot
         (target settings) [] True kind = Inr newSourceFile \<longrightarrow>
       acquireDocument env fName settings snapshot [] kind r =
         (Inr newSourceFile,
          r\<lparr>cacheQueries := cacheQueries r + length (registeredCaches env),
            sourceFileCacheByFilePath :=
              (sourceFileCacheByFilePath r)(getStandardizedAbsolutePath env fName \<mapsto> newSourceFile),
            parserCalls := parserCalls r + 1\<rparr>))"
proof -
  have a: "acquireDocument env fName settings snapshot [] kind r =
       updateSourceFile env (getStandardizedAbsolutePath env fName) settings snapshot [] kind r"
    by (simp add: acquireDocument_def Let_def getSourceFileVersion_nonempty split: option.splits)
  show ?thesis
    unfolding a
    by (auto simp: getSourceFileVersion_def updateSourceFile_no_match)
qed

text \<open>
  The theorem at two calls in a row in a registry without caches that starts empty.
\<close>

theorem empty_version_never_hits_witness:
  "version (versionFile 0 []) = Some [] \<and> getSourceFileVersion (versionFile 0 []) = ''0''
   \<and> noCacheMatches plainEnv (getStandardizedAbsolutePath plainEnv ''/a.ts'') ''let x;'' (target es2015) None
   \<and> createCompilerSourceFile plainEnv (parserCalls emptyRegistry)
       (getStandardizedAbsolutePath plainEnv ''/a.ts'') ''let x;'' (target es2015) [] True None =
       Inr (versionFile 0 [])
   \<and> acquireDocument plainEnv ''/a.ts'' es2015 ''let x;'' [] None emptyRegistry =
       (Inr (versionFile 0 []),
        \<lparr>sourceFileCacheByFilePath = [''/a.ts'' \<mapsto> versionFile 0 []], parserCalls = 1,
         cacheQueries = 0\<rparr>)
   \<and> acquireDocument plainEnv ''/a.ts'' es2015 ''let x;'' [] None
        \<lparr>sourceFileCacheByFilePath = [''/a.ts'' \<mapsto> versionFile 0 []], parserCalls = 1,
         cacheQueries = 0\<rparr> =
       (Inr (versionFile 1 []),
        \<lparr>sourceFileCacheByFilePath = [''/a.ts'' \<mapsto> versionFile 1 []], parserCalls = 2,
         cacheQueries = 0\<rparr>)"
proof -
  have n: "noCacheMatches plainEnv (getStandardizedAbsolutePath plainEnv ''/a.ts'') ''let x;''
      (target es2015) None"
    by (rule plain_no_match)
  have p0: "createCompilerSourceFile plainEnv (parserCalls emptyRegistry)
      (getStandardizedAbsolutePath plainEnv ''/a.ts'') ''let x;'' (target es2015) [] True None =
      Inr (versionFile 0 [])"
    by (simp add: plainEnv_def specParser_def emptyRegistry_def versionFile_def es2015_def)
  have p1: "createCompilerSourceFile plainEnv
      (parserCalls \<lparr>sourceFileCacheByFilePath = [''/a.ts'' \<mapsto> versionFile 0 []], parserCalls = 1,
         cacheQueries = 0\<rparr>)
      (getStandardizedAbsolutePath plainEnv ''/a.ts'') ''let x;'' (target es2015) [] True None =
      Inr (versionFile 1 [])"
    by (simp add: plainEnv_def specParser_def versionFile_def es2015_def)
  have v: "version (versionFile 0 []) = Some []"
    by (simp add: versionFile_def)
  let ?r1 = "\<lparr>sourceFileCacheByFilePath = [''/a.ts'' \<mapsto> versionFile 0 []], parserCalls = 1,
         cacheQueries = 0\<rparr>"
  have g: "getSourceFileVersion (versionFile 0 []) = ''0''"
    using v empty_version_never_hits [of "versionFile 0 []" plainEnv "''/a.ts''" es2015 "''let x;''"
        None emptyRegistry "versionFile 0 []"]
    by blast
  have a0: "acquireDocument plainEnv ''/a.ts'' es2015 ''let x;'' [] None emptyRegistry =
      (Inr (versionFile 0 []),
       emptyRegistry\<lparr>cacheQueries := cacheQueries emptyRegistry + length (registeredCaches plainEnv),
         sourceFileCacheByFilePath := (sourceFileCacheByFilePath emptyRegistry)
           (getStandardizedAbsolutePath plainEnv ''/a.ts'' \<mapsto> versionFile 0 []),
         parserCalls := parserCalls emptyRegistry + 1\<rparr>)"
    using n p0 empty_version_never_hits [of "versionFile 0 []" plainEnv "''/a.ts''" es2015
        "''let x;''" None emptyRegistry "versionFile 0 []"]
    by blast
  have a1: "acquireDocument plainEnv ''/a.ts'' es2015 ''let x;'' [] None ?r1 =
      (Inr (versionFile 1 []),
       ?r1\<lparr>cacheQueries := cacheQueries ?r1 + length (registeredCaches plainEnv),
         sourceFileCacheByFilePath := (sourceFileCacheByFilePath ?r1)
           (getStandardizedAbsolutePath plainEnv ''/a.ts'' \<mapsto> versionFile 1 []),
         parserCalls := parserCalls ?r1 + 1\<rparr>)"
    using n p1 empty_version_never_hits [of "versionFile 0 []" plainEnv "''/a.ts''" es2015
        "''let x;''" None ?r1 "versionFile 1 []"]
    by blast
  show ?thesis
    using v g n p0 a0 a1 by (simp add: plain_caches plain_path emptyRegistry_def)
qed

text \<open>
  C10 as stated says that each call at the empty version stores a new tree. With a
  document cache that has a document for the request, two calls in a row return and
  store the same document of the cache and the parser is never called; and when the
  parser throws, nothing is stored.
\<close>

theorem empty_version_cached_counterexample:
  "acquireDocument cachedEnv ''/a.ts'' es2015 ''let x;'' [] None emptyRegistry =
     (Inr (preloadedDocument 0 ''/a.ts'' ''let x;'' ''-1''), cacheFilledRegistry)
   \<and> acquireDocument cachedEnv ''/a.ts'' es2015 ''let x;'' [] None cacheFilledRegistry =
     (Inr (preloadedDocument 0 ''/a.ts'' ''let x;'' ''-1''), cacheFilledRegistry\<lparr>cacheQueries := 2\<rparr>)
   \<and> parserCalls (cacheFilledRegistry\<lparr>cacheQueries := 2\<rparr>) = 0
   \<and> acquireDocument rejectingEnv ''/a.ts'' es2015 ''}{'' [] None oneFileRegistry =
     (Inl (ParseFailure ''syntax''), oneFileRegistry\<lparr>parserCalls := 2\<rparr>)
   \<and> sourceFileCacheByFilePath (oneFileRegistry\<lparr>parserCalls := 2\<rparr>) =
       sourceFileCacheByFilePath oneFileRegistry"
  by (simp add: acquireDocument_def Let_def updateSourceFile_def registeredCaches_def cachedEnv_def
      cacheHolding_def preloadedDocument_def emptyRegistry_def cacheFilledRegistry_def
      getSourceFileVersion_def rejectingEnv_def rejectingParser_def oneFileRegistry_def)

end
